theory Spec2Isabelle
  imports Complex_Main
begin

section \<open>JavaScript numbers\<close>

text \<open>
  The service computes with JavaScript numbers and TensorFlow float tensors. Finite
  values are modelled by the reals (rounding is not modelled); the three special
  values that a division by zero can produce are kept, because the code's
  comparisons treat them differently from numbers: every ordered comparison with
  \<open>NaN\<close> is false.
\<close>

datatype jsnum = Num real | PosInf | NegInf | NaN

text \<open>\<open>js_gt a b\<close> is the JavaScript expression \<open>a > b\<close>.\<close>

fun js_gt :: "jsnum \<Rightarrow> jsnum \<Rightarrow> bool" where
  "js_gt (Num x) (Num y) = (y < x)"
| "js_gt NaN _ = False"
| "js_gt _ NaN = False"
| "js_gt PosInf PosInf = False"
| "js_gt PosInf _ = True"
| "js_gt _ PosInf = False"
| "js_gt NegInf _ = False"
| "js_gt _ NegInf = True"

text \<open>\<open>js_lt a b\<close> is \<open>a < b\<close>.\<close>

definition js_lt :: "jsnum \<Rightarrow> jsnum \<Rightarrow> bool" where
  "js_lt a b = js_gt b a"

text \<open>Division of two finite numbers: \<open>0/0\<close> is \<open>NaN\<close>, \<open>x/0\<close> is an infinity.\<close>

definition tf_div :: "real \<Rightarrow> real \<Rightarrow> jsnum" where
  "tf_div x y =
     (if y \<noteq> 0 then Num (x / y)
      else if x = 0 then NaN
      else if 0 < x then PosInf else NegInf)"

section \<open>Face recognition service\<close>

datatype error =
    TensorShapeError
  | DecryptionError
  | ModelError
  | JsonSyntaxError
  | MissingKeyError

type_synonym features = "real list"

text \<open>
  \<open>tf.mul\<close> on two tensors, given by the list of their entries: entrywise when the
  shapes agree, broadcast when one side has a single entry, an exception otherwise.
\<close>

definition tf_mul :: "features \<Rightarrow> features \<Rightarrow> error + features" where
  "tf_mul a b =
     (if length a = length b then Inr (map2 (*) a b)
      else case a of
        [x] \<Rightarrow> Inr (map (\<lambda>y. x * y) b)
      | _ \<Rightarrow> (case b of
          [y] \<Rightarrow> Inr (map (\<lambda>x. x * y) a)
        | _ \<Rightarrow> Inl TensorShapeError))"

definition tf_square :: "features \<Rightarrow> features" where
  "tf_square a = map (\<lambda>x. x * x) a"

definition tf_sum :: "features \<Rightarrow> real" where
  "tf_sum a = sum_list a"

text \<open>The norm that \<open>compareFaces\<close> computes: \<open>tf.sqrt(tf.sum(tf.square(v)))\<close>.\<close>

definition tf_norm :: "features \<Rightarrow> real" where
  "tf_norm a = sqrt (tf_sum (tf_square a))"

record comparison =
  isMatch :: bool
  similarity :: jsnum
  threshold :: real

definition default_threshold :: real where
  "default_threshold = 0.6"

text \<open>
  \<open>compareFaces(features1, features2, threshold = 0.6)\<close>. The \<open>catch\<close> block logs and
  rethrows, so an exception of \<open>tf.mul\<close> is the result.
\<close>

definition compareFaces :: "features \<Rightarrow> features \<Rightarrow> real \<Rightarrow> error + comparison" where
  "compareFaces features1 features2 thr =
     (case tf_mul features1 features2 of
        Inl e \<Rightarrow> Inl e
      | Inr products \<Rightarrow>
          (let dotProduct = tf_sum products;
               norm1 = tf_norm features1;
               norm2 = tf_norm features2;
               similarityValue = tf_div dotProduct (norm1 * norm2);
               isMatch = js_gt similarityValue (Num thr)
           in Inr \<lparr>isMatch = isMatch, similarity = similarityValue, threshold = thr\<rparr>))"

subsection \<open>Anti-spoofing\<close>

record livenessResult =
  isLive :: bool
  confidence :: real
  liveness_method :: string

record textureResult =
  textureScore :: real
  isRealTexture :: bool

record depthResult =
  depthScore :: real
  hasDepth :: bool

record antiSpoofingResult =
  livenessDetection :: livenessResult
  textureAnalysis :: textureResult
  depthAnalysis :: depthResult
  overallScore :: real
  checks_isLive :: bool
  passed :: bool

text \<open>
  \<open>performAntiSpoofingChecks\<close>. The three sub-checks are placeholders drawing random
  numbers in the source; they are inputs here: the outcome of \<open>detectLiveness\<close> (which
  may throw), and the texture and depth analyses.
\<close>

definition performAntiSpoofingChecks ::
    "error + livenessResult \<Rightarrow> textureResult \<Rightarrow> depthResult \<Rightarrow> error + antiSpoofingResult" where
  "performAntiSpoofingChecks liveness texture depth =
     (case liveness of
        Inl e \<Rightarrow> Inl e
      | Inr ld \<Rightarrow>
          (let score = confidence ld * 0.4 + textureScore texture * 0.3 + depthScore depth * 0.3;
               live = (0.75 < score \<and> isLive ld \<and> isRealTexture texture \<and> hasDepth depth)
           in Inr \<lparr>livenessDetection = ld, textureAnalysis = texture, depthAnalysis = depth,
                    overallScore = score, checks_isLive = live, passed = live\<rparr>))"

text \<open>
  \<open>detectFaces\<close>: the detection model's answer (an input here; preprocessing or the
  model may throw), filtered by the confidence threshold 0.7.
\<close>

record face =
  box :: "int \<times> int \<times> int \<times> int"
  face_confidence :: real

definition detectFaces :: "error + face list \<Rightarrow> error + face list" where
  "detectFaces model_answer =
     (case model_answer of
        Inl e \<Rightarrow> Inl e
      | Inr faces \<Rightarrow> Inr (filter (\<lambda>f. 0.7 < face_confidence f) faces))"

section \<open>Geofence\<close>

text \<open>\<open>Math.atan2(y, x)\<close> on finite numbers (signed zeros are not distinguished).\<close>

definition Math_atan2 :: "real \<Rightarrow> real \<Rightarrow> real" where
  "Math_atan2 y x =
     (if 0 < x then arctan (y / x)
      else if x < 0 then (if 0 \<le> y then arctan (y / x) + pi else arctan (y / x) - pi)
      else if 0 < y then pi / 2
      else if y < 0 then - (pi / 2)
      else 0)"

text \<open>The haversine term \<open>a\<close> of \<open>calculateDistance\<close>, for coordinates in degrees.\<close>

definition haversine_a :: "real \<Rightarrow> real \<Rightarrow> real \<Rightarrow> real \<Rightarrow> real" where
  "haversine_a lat1 lon1 lat2 lon2 =
     (let phi1 = lat1 * pi / 180;
          phi2 = lat2 * pi / 180;
          dphi = (lat2 - lat1) * pi / 180;
          dlambda = (lon2 - lon1) * pi / 180
      in sin (dphi / 2) * sin (dphi / 2)
         + cos phi1 * cos phi2 * sin (dlambda / 2) * sin (dlambda / 2))"

definition calculateDistance :: "real \<Rightarrow> real \<Rightarrow> real \<Rightarrow> real \<Rightarrow> real" where
  "calculateDistance lat1 lon1 lat2 lon2 =
     (let R = 6371000;
          a = haversine_a lat1 lon1 lat2 lon2;
          c = 2 * Math_atan2 (sqrt a) (sqrt (1 - a))
      in R * c)"

subsection \<open>The distance the geofence is meant to use\<close>






subsection \<open>Numbers in messages\<close>

text \<open>\<open>Math.round\<close> rounds half up; a whole number prints as its decimal digits.\<close>

definition Math_round :: "real \<Rightarrow> int" where
  "Math_round x = \<lfloor>x + 1 / 2\<rfloor>"

function show_nat :: "nat \<Rightarrow> string" where
  "show_nat n =
     (if n < 10 then [char_of (48 + n)]
      else show_nat (n div 10) @ [char_of (48 + n mod 10)])"
  by pat_completeness auto
termination
  by (relation "measure id") auto

declare show_nat.simps [simp del]

definition show_int :: "int \<Rightarrow> string" where
  "show_int i = (if i < 0 then CHR ''-'' # show_nat (nat (- i)) else show_nat (nat i))"

section \<open>Template encryption\<close>

text \<open>
  The values that \<open>encryptFaceTemplate\<close> is handed and that \<open>decryptFaceTemplate\<close> hands
  back: numbers, \<open>null\<close>, plain arrays, typed arrays of floats, and objects given by their
  properties in order.
\<close>

datatype jsvalue =
    JSNull
  | JSNumber jsnum
  | JSArray "jsvalue list"
  | JSFloat32Array "jsnum list"
  | JSObject "(string \<times> jsvalue) list"

text \<open>
  A JSON text, given by the document it spells. The language's \<open>JSON.stringify\<close>
  writes a finite number as a number and any other number as \<open>null\<close>; it writes an
  array as an array; a typed array is not an array to it but an object whose
  properties are the indices, so it writes an object keyed \<open>"0"\<close>, \<open>"1"\<close>, and so on.
  \<open>JSON.parse\<close> reads a number, \<open>null\<close>, an array and an object as such.
\<close>

datatype json =
    JsonNull
  | JsonNumber real
  | JsonArray "json list"
  | JsonObject "(string \<times> json) list"

fun number_to_json :: "jsnum \<Rightarrow> json" where
  "number_to_json (Num x) = JsonNumber x"
| "number_to_json other = JsonNull"

primrec JSON_stringify :: "jsvalue \<Rightarrow> json" where
  "JSON_stringify JSNull = JsonNull"
| "JSON_stringify (JSNumber n) = number_to_json n"
| "JSON_stringify (JSArray vs) = JsonArray (map JSON_stringify vs)"
| "JSON_stringify (JSFloat32Array xs) =
     JsonObject (zip (map show_nat [0..<length xs]) (map number_to_json xs))"
| "JSON_stringify (JSObject props) = JsonObject (map (map_prod id JSON_stringify) props)"

primrec JSON_parse :: "json \<Rightarrow> jsvalue" where
  "JSON_parse JsonNull = JSNull"
| "JSON_parse (JsonNumber x) = JSNumber (Num x)"
| "JSON_parse (JsonArray ds) = JSArray (map JSON_parse ds)"
| "JSON_parse (JsonObject props) = JSObject (map (map_prod id JSON_parse) props)"

text \<open>
  \<open>encryptFaceTemplate\<close> and \<open>decryptFaceTemplate\<close>. The cipher belongs to the platform's
  crypto library and is a parameter: \<open>cipher key text\<close> is the hex string that
  \<open>update\<close> and \<open>final\<close> of \<open>createCipher('aes-256-cbc', key)\<close> produce for a text, and
  \<open>decipher key hex\<close> is the text that \<open>createDecipher\<close> recovers, or the exception it
  throws (which also stands for a recovered text that is no JSON). The key is the
  environment's \<open>ENCRYPTION_KEY\<close>; creating a cipher without one throws. Both
  functions log and rethrow.
\<close>

definition encryptFaceTemplate ::
    "(string \<Rightarrow> json \<Rightarrow> 'c) \<Rightarrow> string option \<Rightarrow> jsvalue \<Rightarrow> error + 'c" where
  "encryptFaceTemplate cipher encryptionKey template =
     (case encryptionKey of
        None \<Rightarrow> Inl MissingKeyError
      | Some key \<Rightarrow> Inr (cipher key (JSON_stringify template)))"

definition decryptFaceTemplate_service ::
    "(string \<Rightarrow> 'c \<Rightarrow> error + json) \<Rightarrow> string option \<Rightarrow> 'c \<Rightarrow> error + jsvalue" where
  "decryptFaceTemplate_service decipher encryptionKey encryptedTemplate =
     (case encryptionKey of
        None \<Rightarrow> Inl MissingKeyError
      | Some key \<Rightarrow>
          (case decipher key encryptedTemplate of
             Inl e \<Rightarrow> Inl e
           | Inr decrypted \<Rightarrow> Inr (JSON_parse decrypted)))"

text \<open>Encrypting a template and decrypting the result.\<close>

definition encrypt_then_decrypt ::
    "(string \<Rightarrow> json \<Rightarrow> 'c) \<Rightarrow> (string \<Rightarrow> 'c \<Rightarrow> error + json) \<Rightarrow> string option
      \<Rightarrow> jsvalue \<Rightarrow> error + jsvalue" where
  "encrypt_then_decrypt cipher decipher encryptionKey template =
     (case encryptFaceTemplate cipher encryptionKey template of
        Inl e \<Rightarrow> Inl e
      | Inr encrypted \<Rightarrow> decryptFaceTemplate_service decipher encryptionKey encrypted)"

text \<open>
  A feature vector as the extraction hands it over in the enrolment route: the typed
  array of a tensor's data. And the same numbers as a plain array.
\<close>

definition typed_vector :: "real list \<Rightarrow> jsvalue" where
  "typed_vector xs = JSFloat32Array (map Num xs)"

definition plain_vector :: "real list \<Rightarrow> jsvalue" where
  "plain_vector xs = JSArray (map (\<lambda>x. JSNumber (Num x)) xs)"

section \<open>Stored data\<close>

type_synonym time = int  \<comment> \<open>milliseconds since the epoch\<close>

datatype att_type = CheckIn | CheckOut

datatype att_status = Pending | Approved | Rejected | Flagged

record attendance_record =
  ar_user_id :: string
  ar_type :: att_type
  ar_timestamp :: time
  ar_latitude :: real
  ar_longitude :: real
  ar_location_address :: "string option"
  ar_accuracy :: "real option"
  ar_confidence_score :: jsnum
  ar_liveness_passed :: bool
  ar_liveness_data :: antiSpoofingResult
  ar_status :: att_status
  ar_rejection_reason :: "string option"
  ar_device_info :: "string option"
  ar_is_offline :: bool

record face_template =
  ft_id :: string
  ft_user_id :: string
  face_encoding :: string
  is_primary :: bool

text \<open>
  A row of \<open>work_schedules\<close>. The coordinates are nullable decimal columns, which the
  database driver hands over as non-empty strings: such a value is truthy whatever the
  number, so only \<open>NULL\<close> (\<open>None\<close>) fails the test \<open>workSchedule.latitude &&
  workSchedule.longitude\<close>. The radius is a nullable integer column.
\<close>

record work_schedule =
  ws_user_id :: string
  ws_latitude :: "real option"
  ws_longitude :: "real option"
  location_radius :: "int option"
  is_active :: bool
  effective_from :: "time option"
  effective_to :: "time option"

record database =
  attendance_records :: "attendance_record list"
  face_templates :: "face_template list"
  work_schedules :: "work_schedule list"

section \<open>Requests and the handlers' surroundings\<close>

text \<open>
  The request after authentication and upload handling: the validator's findings,
  whether a file came with it, the authenticated user, the body fields the handlers
  read (the coordinates as \<open>parseFloat\<close> yields them, \<open>deviceInfo\<close> as \<open>JSON.parse\<close> takes
  it: its value, or the exception it throws), and any other body fields.
\<close>

record request =
  validation_errors :: "string list"
  file_present :: bool
  req_user_id :: string
  latitude :: real
  longitude :: real
  accuracy :: "real option"
  locationAddress :: "string option"
  deviceInfo :: "(error + string) option"
  other_fields :: "(string \<times> string) list"

text \<open>
  What a handler obtains from outside while it serves one request: the readings of the
  server's clock (one per \<open>new Date()\<close>, in program order), the server's time zone as
  a fixed offset from UTC, the answers of the (placeholder) models, and template
  decryption, which belongs to the platform's crypto library.
\<close>

record externals =
  clock_timestamp :: time
  clock_todayStart :: time
  clock_todayEnd :: time
  clock_effective_from :: time
  clock_effective_to :: time
  utc_offset :: int
  detected_faces :: "error + face list"
  liveness_outcome :: "error + livenessResult"
  texture_outcome :: textureResult
  depth_outcome :: depthResult
  extracted_features :: "error + features"
  decryptFaceTemplate :: "string \<Rightarrow> error + features"

datatype response =
    ValidationFailed "string list"
  | FaceImageRequired
  | AlreadyCheckedIn
  | NoCheckInYet
  | AlreadyCheckedOut
  | NoFaceDetected
  | LivenessFailed "antiSpoofingResult option"
  | NoEnrolledTemplate
  | FaceNotRecognized "(jsnum \<times> real) option"
  | CheckInRecorded attendance_record bool string
  | CheckOutRecorded attendance_record
  | ServerError

section \<open>The attendance routes\<close>

text \<open>\<open>d.setHours(0, 0, 0, 0)\<close> and \<open>d.setHours(23, 59, 59, 999)\<close> in the server's zone.\<close>

definition setHours_start :: "int \<Rightarrow> time \<Rightarrow> time" where
  "setHours_start off t = t - (t + off) mod 86400000"

definition setHours_end :: "int \<Rightarrow> time \<Rightarrow> time" where
  "setHours_end off t = t - (t + off) mod 86400000 + 86399999"

text \<open>
  The query both routes use for the duplicate check: the first approved record of the
  given type of the user with a timestamp between \<open>todayStart\<close> and \<open>todayEnd\<close>.
\<close>

definition approved_today :: "att_type \<Rightarrow> externals \<Rightarrow> database \<Rightarrow> string \<Rightarrow> attendance_record option" where
  "approved_today ty ex db userId =
     (let todayStart = setHours_start (utc_offset ex) (clock_todayStart ex);
          todayEnd = setHours_end (utc_offset ex) (clock_todayEnd ex)
      in find (\<lambda>r. ar_user_id r = userId \<and> ar_type r = ty
                    \<and> todayStart \<le> ar_timestamp r \<and> ar_timestamp r \<le> todayEnd
                    \<and> ar_status r = Approved)
           (attendance_records db))"

text \<open>The templates both routes load: those of the user with \<open>is_primary\<close> true.\<close>

definition user_templates :: "database \<Rightarrow> string \<Rightarrow> face_template list" where
  "user_templates db userId =
     filter (\<lambda>t. ft_user_id t = userId \<and> is_primary t) (face_templates db)"

text \<open>
  The loop over the templates: decrypt, compare with the default threshold, keep the
  comparison if its similarity exceeds the best so far. An exception ends it.
\<close>

fun compare_templates ::
    "(string \<Rightarrow> error + features) \<Rightarrow> features \<Rightarrow> face_template list
      \<Rightarrow> comparison option \<times> jsnum \<Rightarrow> error + comparison option \<times> jsnum" where
  "compare_templates dec faceFeatures [] best = Inr best"
| "compare_templates dec faceFeatures (t # ts) (bestMatch, bestSimilarity) =
     (case dec (face_encoding t) of
        Inl e \<Rightarrow> Inl e
      | Inr decryptedTemplate \<Rightarrow>
          (case compareFaces faceFeatures decryptedTemplate default_threshold of
             Inl e \<Rightarrow> Inl e
           | Inr c \<Rightarrow>
               compare_templates dec faceFeatures ts
                 (if js_gt (similarity c) bestSimilarity then (Some c, similarity c)
                  else (bestMatch, bestSimilarity))))"

definition confidenceThreshold :: real where
  "confidenceThreshold = 0.8"

text \<open>
  Check-in, from the validation guard to the end of the template loop (lines 36 to
  130): either the response that ends the request there, or the anti-spoofing report,
  the best match and the best similarity.
\<close>

definition check_in_match ::
    "externals \<Rightarrow> database \<Rightarrow> request
      \<Rightarrow> response + antiSpoofingResult \<times> comparison option \<times> jsnum" where
  "check_in_match ex db req =
     (if validation_errors req \<noteq> [] then Inl (ValidationFailed (validation_errors req))
      else if \<not> file_present req then Inl FaceImageRequired
      else if approved_today CheckIn ex db (req_user_id req) \<noteq> None then Inl AlreadyCheckedIn
      else case detectFaces (detected_faces ex) of
        Inl e \<Rightarrow> Inl ServerError
      | Inr [] \<Rightarrow> Inl NoFaceDetected
      | Inr (face # others) \<Rightarrow>
          (case performAntiSpoofingChecks (liveness_outcome ex) (texture_outcome ex)
                  (depth_outcome ex) of
             Inl e \<Rightarrow> Inl ServerError
           | Inr antiSpoofingResult \<Rightarrow>
               if \<not> passed antiSpoofingResult then Inl (LivenessFailed (Some antiSpoofingResult))
               else (case extracted_features ex of
                  Inl e \<Rightarrow> Inl ServerError
                | Inr faceFeatures \<Rightarrow>
                    (let faceTemplates = user_templates db (req_user_id req)
                     in if faceTemplates = [] then Inl NoEnrolledTemplate
                        else (case compare_templates (decryptFaceTemplate ex) faceFeatures
                                     faceTemplates (None, Num 0) of
                           Inl e \<Rightarrow> Inl ServerError
                         | Inr (bestMatch, bestSimilarity) \<Rightarrow>
                             Inr (antiSpoofingResult, bestMatch, bestSimilarity))))))"

text \<open>The work schedule query of check-in: the first active, effective schedule.\<close>

definition effective_schedule :: "externals \<Rightarrow> database \<Rightarrow> string \<Rightarrow> work_schedule option" where
  "effective_schedule ex db userId =
     find (\<lambda>w. ws_user_id w = userId \<and> is_active w
                \<and> (case effective_from w of None \<Rightarrow> True
                    | Some d \<Rightarrow> d \<le> clock_effective_from ex)
                \<and> (case effective_to w of None \<Rightarrow> True
                    | Some d \<Rightarrow> clock_effective_to ex \<le> d))
       (work_schedules db)"

text \<open>
  In \<open>distance > workSchedule.location_radius\<close> a \<open>null\<close> radius counts as 0; in the
  message it prints as \<open>null\<close>.
\<close>

definition radius_number :: "int option \<Rightarrow> real" where
  "radius_number r = (case r of None \<Rightarrow> 0 | Some n \<Rightarrow> real_of_int n)"

definition radius_text :: "int option \<Rightarrow> string" where
  "radius_text r = (case r of None \<Rightarrow> ''null'' | Some n \<Rightarrow> show_int n)"

definition locationMessage_text :: "real \<Rightarrow> int option \<Rightarrow> string" where
  "locationMessage_text distance r =
     ''You are '' @ show_int (Math_round distance)
       @ ''m away from your work location. Allowed radius: '' @ radius_text r @ ''m''"

text \<open>The location check of check-in (lines 156 to 171): \<open>locationValid\<close> and \<open>locationMessage\<close>.\<close>

definition location_check :: "work_schedule option \<Rightarrow> real \<Rightarrow> real \<Rightarrow> bool \<times> string" where
  "location_check workSchedule lat lon =
     (case workSchedule of
        None \<Rightarrow> (True, [])
      | Some ws \<Rightarrow>
          (case ws_latitude ws of
             None \<Rightarrow> (True, [])
           | Some ws_lat \<Rightarrow>
               (case ws_longitude ws of
                  None \<Rightarrow> (True, [])
                | Some ws_lon \<Rightarrow>
                    (let distance = calculateDistance lat lon ws_lat ws_lon
                     in if radius_number (location_radius ws) < distance
                        then (False, locationMessage_text distance (location_radius ws))
                        else (True, [])))))"

text \<open>
  \<open>POST /api/attendance/check-in\<close>: the response and the database afterwards. The
  audit-log row and the notification that follow the insert are not part of the state
  modelled here.
\<close>

definition post_check_in :: "externals \<Rightarrow> database \<Rightarrow> request \<Rightarrow> response \<times> database" where
  "post_check_in ex db req =
     (case check_in_match ex db req of
        Inl resp \<Rightarrow> (resp, db)
      | Inr (antiSpoofingResult, bestMatch, bestSimilarity) \<Rightarrow>
          if bestMatch = None \<or> js_lt bestSimilarity (Num confidenceThreshold)
          then (FaceNotRecognized (Some (bestSimilarity, confidenceThreshold)), db)
          else (let workSchedule = effective_schedule ex db (req_user_id req);
                    (locationValid, locationMessage) =
                       location_check workSchedule (latitude req) (longitude req)
                in case deviceInfo req of
                     Some (Inl e) \<Rightarrow> (ServerError, db)
                   | parsed \<Rightarrow>
                       (let attendanceRecord =
                          \<lparr>ar_user_id = req_user_id req,
                           ar_type = CheckIn,
                           ar_timestamp = clock_timestamp ex,
                           ar_latitude = latitude req,
                           ar_longitude = longitude req,
                           ar_location_address = locationAddress req,
                           ar_accuracy = accuracy req,
                           ar_confidence_score = bestSimilarity,
                           ar_liveness_passed = passed antiSpoofingResult,
                           ar_liveness_data = antiSpoofingResult,
                           ar_status = (if locationValid then Approved else Flagged),
                           ar_rejection_reason = (if locationValid then None else Some locationMessage),
                           ar_device_info = (case parsed of Some (Inr v) \<Rightarrow> Some v | _ \<Rightarrow> None),
                           ar_is_offline = False\<rparr>
                        in (CheckInRecorded attendanceRecord locationValid locationMessage,
                            db\<lparr>attendance_records := attendance_records db @ [attendanceRecord]\<rparr>))))"

text \<open>
  Check-out, from the validation guard to the end of the template loop (lines 256 to
  348). It has no guard for an empty template list, and it reports no details with its
  rejections.
\<close>

definition check_out_match ::
    "externals \<Rightarrow> database \<Rightarrow> request
      \<Rightarrow> response + antiSpoofingResult \<times> comparison option \<times> jsnum" where
  "check_out_match ex db req =
     (if validation_errors req \<noteq> [] then Inl (ValidationFailed (validation_errors req))
      else if \<not> file_present req then Inl FaceImageRequired
      else if approved_today CheckIn ex db (req_user_id req) = None then Inl NoCheckInYet
      else if approved_today CheckOut ex db (req_user_id req) \<noteq> None then Inl AlreadyCheckedOut
      else case detectFaces (detected_faces ex) of
        Inl e \<Rightarrow> Inl ServerError
      | Inr [] \<Rightarrow> Inl NoFaceDetected
      | Inr (face # others) \<Rightarrow>
          (case performAntiSpoofingChecks (liveness_outcome ex) (texture_outcome ex)
                  (depth_outcome ex) of
             Inl e \<Rightarrow> Inl ServerError
           | Inr antiSpoofingResult \<Rightarrow>
               if \<not> passed antiSpoofingResult then Inl (LivenessFailed None)
               else (case extracted_features ex of
                  Inl e \<Rightarrow> Inl ServerError
                | Inr faceFeatures \<Rightarrow>
                    (case compare_templates (decryptFaceTemplate ex) faceFeatures
                            (user_templates db (req_user_id req)) (None, Num 0) of
                       Inl e \<Rightarrow> Inl ServerError
                     | Inr (bestMatch, bestSimilarity) \<Rightarrow>
                         Inr (antiSpoofingResult, bestMatch, bestSimilarity)))))"

text \<open>
  \<open>POST /api/attendance/check-out\<close>: the response and the database afterwards. There is
  no work schedule query and no location check; the status is the constant \<open>approved\<close>.
\<close>

definition post_check_out :: "externals \<Rightarrow> database \<Rightarrow> request \<Rightarrow> response \<times> database" where
  "post_check_out ex db req =
     (case check_out_match ex db req of
        Inl resp \<Rightarrow> (resp, db)
      | Inr (antiSpoofingResult, bestMatch, bestSimilarity) \<Rightarrow>
          if bestMatch = None \<or> js_lt bestSimilarity (Num confidenceThreshold)
          then (FaceNotRecognized None, db)
          else (case deviceInfo req of
             Some (Inl e) \<Rightarrow> (ServerError, db)
           | parsed \<Rightarrow>
               (let attendanceRecord =
                  \<lparr>ar_user_id = req_user_id req,
                   ar_type = CheckOut,
                   ar_timestamp = clock_timestamp ex,
                   ar_latitude = latitude req,
                   ar_longitude = longitude req,
                   ar_location_address = locationAddress req,
                   ar_accuracy = accuracy req,
                   ar_confidence_score = bestSimilarity,
                   ar_liveness_passed = passed antiSpoofingResult,
                   ar_liveness_data = antiSpoofingResult,
                   ar_status = Approved,
                   ar_rejection_reason = None,
                   ar_device_info = (case parsed of Some (Inr v) \<Rightarrow> Some v | _ \<Rightarrow> None),
                   ar_is_offline = False\<rparr>
                in (CheckOutRecorded attendanceRecord,
                    db\<lparr>attendance_records := attendance_records db @ [attendanceRecord]\<rparr>))))"

section \<open>Notions used to state the properties\<close>

text \<open>The calendar day of an instant in the server's zone, as a day number.\<close>

definition day_of :: "int \<Rightarrow> time \<Rightarrow> int" where
  "day_of off t = (t + off) div 86400000"

text \<open>
  The invariant of the attendance table: no two approved records share user, type and
  calendar day.
\<close>

definition approved_keys :: "int \<Rightarrow> database \<Rightarrow> (string \<times> att_type \<times> int) list" where
  "approved_keys off db =
     map (\<lambda>r. (ar_user_id r, ar_type r, day_of off (ar_timestamp r)))
       (filter (\<lambda>r. ar_status r = Approved) (attendance_records db))"

definition one_per_day :: "int \<Rightarrow> database \<Rightarrow> bool" where
  "one_per_day off db = distinct (approved_keys off db)"

text \<open>The user of the request has an approved record of the given type on the server's day.\<close>

definition has_approved :: "att_type \<Rightarrow> externals \<Rightarrow> database \<Rightarrow> request \<Rightarrow> bool" where
  "has_approved ty ex db req =
     ((req_user_id req, ty, day_of (utc_offset ex) (clock_todayStart ex))
        \<in> set (approved_keys (utc_offset ex) db))"

text \<open>The clock readings a handler takes for the record and for the day window fall on one day.\<close>

definition clock_same_day :: "externals \<Rightarrow> bool" where
  "clock_same_day ex =
     (day_of (utc_offset ex) (clock_timestamp ex) = day_of (utc_offset ex) (clock_todayStart ex)
      \<and> day_of (utc_offset ex) (clock_todayEnd ex) = day_of (utc_offset ex) (clock_todayStart ex))"

definition well_formed :: "request \<Rightarrow> bool" where
  "well_formed req = (validation_errors req = [] \<and> file_present req)"

text \<open>\<open>JSON.parse(deviceInfo)\<close> does not throw (or there is no \<open>deviceInfo\<close>).\<close>

fun deviceInfo_parses :: "(error + string) option \<Rightarrow> bool" where
  "deviceInfo_parses (Some (Inl e)) = False"
| "deviceInfo_parses other = True"

fun is_rejection :: "response \<Rightarrow> bool" where
  "is_rejection (CheckInRecorded r v m) = False"
| "is_rejection (CheckOutRecorded r) = False"
| "is_rejection other = True"

fun recorded_status :: "response \<Rightarrow> att_status option" where
  "recorded_status (CheckInRecorded r v m) = Some (ar_status r)"
| "recorded_status (CheckOutRecorded r) = Some (ar_status r)"
| "recorded_status other = None"


subsection \<open>Sample data\<close>

definition demo_decrypt :: "string \<Rightarrow> error + features" where
  "demo_decrypt enc =
     (if enc = ''enc-a'' then Inr [1, 0]
      else if enc = ''enc-b'' then Inr [0, 1]
      else if enc = ''enc-c'' then Inr [3, 4]
      else Inl DecryptionError)"

text \<open>
  The surroundings of a request that arrives at instant \<open>t\<close> on a server running on
  UTC: the five clock readings follow one another by a millisecond, one face is
  detected, the anti-spoofing checks pass with overall score 0.88, and the features
  extracted are (1, 0).
\<close>

definition demo_externals :: "time \<Rightarrow> externals" where
  "demo_externals t =
     \<lparr>clock_timestamp = t, clock_todayStart = t + 1, clock_todayEnd = t + 2,
      clock_effective_from = t + 3, clock_effective_to = t + 4, utc_offset = 0,
      detected_faces = Inr [\<lparr>box = (100, 100, 200, 200), face_confidence = 0.95\<rparr>],
      liveness_outcome = Inr \<lparr>isLive = True, confidence = 0.85, liveness_method = ''passive''\<rparr>,
      texture_outcome = \<lparr>textureScore = 0.9, isRealTexture = True\<rparr>,
      depth_outcome = \<lparr>depthScore = 0.9, hasDepth = True\<rparr>,
      extracted_features = Inr [1, 0],
      decryptFaceTemplate = demo_decrypt\<rparr>"

definition demo_antiSpoofing :: antiSpoofingResult where
  "demo_antiSpoofing =
     \<lparr>livenessDetection = \<lparr>isLive = True, confidence = 0.85, liveness_method = ''passive''\<rparr>,
      textureAnalysis = \<lparr>textureScore = 0.9, isRealTexture = True\<rparr>,
      depthAnalysis = \<lparr>depthScore = 0.9, hasDepth = True\<rparr>,
      overallScore = 0.88, checks_isLive = True, passed = True\<rparr>"

definition demo_request :: request where
  "demo_request =
     \<lparr>validation_errors = [], file_present = True, req_user_id = ''u1'',
      latitude = 90, longitude = 45, accuracy = None, locationAddress = None,
      deviceInfo = None, other_fields = [(''timestamp'', ''1970-01-01T08:00:00.000Z'')]\<rparr>"

definition demo_template :: "string \<Rightarrow> string \<Rightarrow> bool \<Rightarrow> face_template" where
  "demo_template tid enc primary =
     \<lparr>ft_id = tid, ft_user_id = ''u1'', face_encoding = enc, is_primary = primary\<rparr>"

definition demo_schedule :: "real \<Rightarrow> real \<Rightarrow> int \<Rightarrow> work_schedule" where
  "demo_schedule lat lon r =
     \<lparr>ws_user_id = ''u1'', ws_latitude = Some lat, ws_longitude = Some lon,
      location_radius = Some r, is_active = True, effective_from = None,
      effective_to = None\<rparr>"

definition demo_check_in :: "time \<Rightarrow> attendance_record" where
  "demo_check_in t =
     \<lparr>ar_user_id = ''u1'', ar_type = CheckIn, ar_timestamp = t, ar_latitude = 0,
      ar_longitude = 0, ar_location_address = None, ar_accuracy = None,
      ar_confidence_score = Num 1, ar_liveness_passed = True,
      ar_liveness_data = demo_antiSpoofing, ar_status = Approved,
      ar_rejection_reason = None, ar_device_info = None, ar_is_offline = False\<rparr>"

text \<open>
  A store in which user u1 has one template, which is primary, with the given
  encoding: \<open>enc-a\<close> has similarity 1 with the sample features, \<open>enc-c\<close> has 0.6.
\<close>

definition demo_db :: "string \<Rightarrow> attendance_record list \<Rightarrow> work_schedule list \<Rightarrow> database" where
  "demo_db enc recs scheds =
     \<lparr>attendance_records = recs,
      face_templates = [demo_template ''t1'' enc True],
      work_schedules = scheds\<rparr>"





text \<open>
  A stand-in cipher, to have one that inverts: the hex string is represented by the
  key and the text it was made from, and deciphering with another key throws.
\<close>

definition demo_cipher :: "string \<Rightarrow> json \<Rightarrow> string \<times> json" where
  "demo_cipher key text = (key, text)"

definition demo_decipher :: "string \<Rightarrow> string \<times> json \<Rightarrow> error + json" where
  "demo_decipher key encrypted =
     (if fst encrypted = key then Inr (snd encrypted) else Inl DecryptionError)"

section \<open>Properties of the matcher and of the aggregator\<close>

lemma map2_mult_commute: "map2 (*) a b = map2 (*) b (a :: real list)"
proof (induction a arbitrary: b)
  case Nil
  then show ?case by simp
next
  case (Cons x xs)
  then show ?case by (cases b) (simp_all add: mult.commute)
qed

lemma tf_mul_commute: "tf_mul a b = tf_mul b a"
proof (cases "length a = length b")
  case True
  then show ?thesis using map2_mult_commute [of a b] by (simp add: tf_mul_def)
next
  case False
  then show ?thesis
    by (auto simp: tf_mul_def mult.commute split: list.splits)
qed

lemma sum_list_zero_left: "\<forall>x \<in> set a. x = (0::real) \<Longrightarrow> sum_list (map2 (*) a b) = 0"
proof (induction a arbitrary: b)
  case Nil
  then show ?case by simp
next
  case (Cons x xs)
  then show ?case by (cases b) simp_all
qed

lemma sum_squares_nonneg: "0 \<le> sum_list (map (\<lambda>x. x * x) (a :: real list))"
  by (induction a) simp_all

lemma sum_squares_zero: "sum_list (map (\<lambda>x. x * x) (a :: real list)) = 0 \<Longrightarrow> \<forall>x \<in> set a. x = 0"
proof (induction a)
  case Nil
  then show ?case by simp
next
  case (Cons x xs)
  have "0 \<le> x * x" by simp
  moreover have "0 \<le> sum_list (map (\<lambda>x. x * x) xs)" by (rule sum_squares_nonneg)
  moreover have "x * x + sum_list (map (\<lambda>x. x * x) xs) = 0" using Cons.prems by simp
  ultimately have "x * x = 0" and "sum_list (map (\<lambda>x. x * x) xs) = 0" by linarith+
  then show ?case using Cons.IH by simp
qed

lemma tf_norm_zero: "tf_norm a = 0 \<Longrightarrow> \<forall>x \<in> set a. x = 0"
  using sum_squares_zero [of a] by (simp add: tf_norm_def tf_sum_def tf_square_def)

lemma dot_zero_norm:
  assumes "length a = length b" and "tf_norm a = 0 \<or> tf_norm b = 0"
  shows "tf_sum (map2 (*) a b) = 0"
proof -
  from assms(2) show ?thesis
  proof
    assume "tf_norm a = 0"
    then show ?thesis using sum_list_zero_left [of a b] tf_norm_zero [of a]
      by (simp add: tf_sum_def)
  next
    assume "tf_norm b = 0"
    then have "sum_list (map2 (*) b a) = 0"
      using sum_list_zero_left [of b a] tf_norm_zero [of b] by simp
    then show ?thesis by (simp add: tf_sum_def map2_mult_commute [of a b])
  qed
qed

text \<open>
  C10. Swapping the two arguments of \<open>compareFaces\<close> does not change its result: the
  similarity (and with it the match flag, or the exception) is the same for (A, B) and
  for (B, A), for all vectors and every threshold.
\<close>

theorem compareFaces_symmetric:
  "compareFaces a b thr = compareFaces b a thr"
proof -
  have "tf_mul a b = tf_mul b a" by (rule tf_mul_commute)
  moreover have "tf_norm a * tf_norm b = tf_norm b * tf_norm a" by (rule mult.commute)
  ultimately show ?thesis by (simp only: compareFaces_def Let_def)
qed

text \<open>
  C6, as the code has it. \<open>compareFaces\<close> raises nothing for a vector of zero norm: for
  two vectors of the same length of which at least one has zero norm, it returns
  normally, with the similarity \<open>NaN\<close> (the quotient 0/0) and \<open>isMatch = false\<close>.
\<close>

theorem compareFaces_zero_norm:
  assumes "length a = length b" and "tf_norm a = 0 \<or> tf_norm b = 0"
  shows "compareFaces a b thr = Inr \<lparr>isMatch = False, similarity = NaN, threshold = thr\<rparr>"
proof -
  have dot: "tf_sum (map2 (*) a b) = 0" using assms by (rule dot_zero_norm)
  have den: "tf_div 0 (tf_norm a * tf_norm b) = NaN" using assms(2) by (auto simp: tf_div_def)
  show ?thesis using assms(1) dot den
    by (simp add: compareFaces_def tf_mul_def Let_def)
qed

theorem compareFaces_zero_norm_witness:
  "compareFaces [0, 0] [3, 4] (3 / 5) = Inr \<lparr>isMatch = False, similarity = NaN, threshold = 3 / 5\<rparr>
   \<and> length [0, 0 :: real] = length [3, 4 :: real] \<and> tf_norm [0, 0] = 0"
proof -
  have n: "tf_norm [0, 0] = 0" by (simp add: tf_norm_def tf_sum_def tf_square_def)
  have l: "length [0, 0 :: real] = length [3, 4 :: real]" by simp
  from n have d: "tf_norm [0, 0] = 0 \<or> tf_norm [3, 4] = 0" by simp
  show ?thesis using compareFaces_zero_norm [OF l d, of "3 / 5"] n by simp
qed

text \<open>
  The claim C6 as written fails: comparing the zero vector with (3, 4) yields a result
  record, not an exception.
\<close>

theorem compareFaces_zero_norm_counterexample:
  "compareFaces [0, 0] [3, 4] default_threshold
     = Inr \<lparr>isMatch = False, similarity = NaN, threshold = 0.6\<rparr>"
  by (simp add: compareFaces_def tf_mul_def tf_norm_def tf_sum_def tf_square_def tf_div_def
      default_threshold_def)



section \<open>The day window and the structure of the handlers\<close>

lemma div_eq_window:
  fixes D :: int assumes "0 < D"
  shows "(x div D = q) = (q * D \<le> x \<and> x < q * D + D)"
proof
  assume "x div D = q"
  then have "x = q * D + x mod D" by (metis div_mult_mod_eq)
  moreover have "0 \<le> x mod D" "x mod D < D" using assms by simp_all
  ultimately show "q * D \<le> x \<and> x < q * D + D" by linarith
next
  assume h: "q * D \<le> x \<and> x < q * D + D"
  have "(x - q * D) div D = 0" using h assms by (intro div_pos_pos_trivial) linarith+
  moreover have "x = (x - q * D) + q * D" by simp
  ultimately show "x div D = q" by (metis add_0 div_mult_self1 assms less_irrefl mult.commute add.commute)
qed

lemma window_day:
  assumes "day_of off c2 = day_of off c1"
  shows "(setHours_start off c1 \<le> t \<and> t \<le> setHours_end off c2) = (day_of off t = day_of off c1)"
proof -
  define D :: int where "D = 86400000"
  have D: "0 < D" by (simp add: D_def)
  define q where "q = (c1 + off) div D"
  have q2: "(c2 + off) div D = q" using assms by (simp add: day_of_def q_def D_def)
  have e1: "c1 + off = q * D + (c1 + off) mod D" unfolding q_def by (metis div_mult_mod_eq)
  have e2: "c2 + off = q * D + (c2 + off) mod D" using q2 by (metis div_mult_mod_eq)
  have "((t + off) div D = q) = (q * D \<le> t + off \<and> t + off < q * D + D)"
    using D by (rule div_eq_window)
  also have "\<dots> = (c1 - (c1 + off) mod D \<le> t \<and> t \<le> c2 - (c2 + off) mod D + (D - 1))"
    using e1 e2 by linarith
  finally show ?thesis
    by (simp add: setHours_start_def setHours_end_def day_of_def q_def D_def)
qed

lemma approved_today_iff:
  assumes "day_of (utc_offset ex) (clock_todayEnd ex) = day_of (utc_offset ex) (clock_todayStart ex)"
  shows "(approved_today ty ex db (req_user_id req) \<noteq> None) = has_approved ty ex db req"
proof -
  have w: "\<And>t. (setHours_start (utc_offset ex) (clock_todayStart ex) \<le> t
            \<and> t \<le> setHours_end (utc_offset ex) (clock_todayEnd ex))
          = (day_of (utc_offset ex) t = day_of (utc_offset ex) (clock_todayStart ex))"
    using assms by (rule window_day)
  have "(approved_today ty ex db (req_user_id req) \<noteq> None)
      = (\<exists>r \<in> set (attendance_records db). ar_user_id r = req_user_id req \<and> ar_type r = ty
           \<and> (setHours_start (utc_offset ex) (clock_todayStart ex) \<le> ar_timestamp r
              \<and> ar_timestamp r \<le> setHours_end (utc_offset ex) (clock_todayEnd ex))
           \<and> ar_status r = Approved)"
    unfolding approved_today_def Let_def find_None_iff by blast
  also have "\<dots> = (\<exists>r \<in> set (attendance_records db). ar_user_id r = req_user_id req \<and> ar_type r = ty
           \<and> day_of (utc_offset ex) (ar_timestamp r) = day_of (utc_offset ex) (clock_todayStart ex)
           \<and> ar_status r = Approved)"
    by (simp only: w)
  also have "\<dots> = has_approved ty ex db req"
    unfolding has_approved_def approved_keys_def by force
  finally show ?thesis .
qed

lemma check_in_match_Inr:
  assumes "check_in_match ex db req = Inr (anti, bm, bs)"
  shows "well_formed req \<and> approved_today CheckIn ex db (req_user_id req) = None
     \<and> performAntiSpoofingChecks (liveness_outcome ex) (texture_outcome ex) (depth_outcome ex) = Inr anti
     \<and> passed anti
     \<and> user_templates db (req_user_id req) \<noteq> []
     \<and> (\<exists>f. extracted_features ex = Inr f
           \<and> compare_templates (decryptFaceTemplate ex) f (user_templates db (req_user_id req))
                (None, Num 0) = Inr (bm, bs))"
  using assms unfolding check_in_match_def well_formed_def Let_def
  by (auto split: if_splits sum.splits list.splits prod.splits)

lemma post_check_in_cases:
  assumes "post_check_in ex db req = (resp, db')"
  shows "(db' = db \<and> is_rejection resp)
     \<or> (\<exists>r v m. resp = CheckInRecorded r v m
           \<and> db' = db\<lparr>attendance_records := attendance_records db @ [r]\<rparr>
           \<and> ar_user_id r = req_user_id req \<and> ar_type r = CheckIn
           \<and> ar_timestamp r = clock_timestamp ex \<and> \<not> ar_is_offline r
           \<and> approved_today CheckIn ex db (req_user_id req) = None)"
proof (cases "check_in_match ex db req")
  case (Inl r)
  then have "is_rejection r"
    unfolding check_in_match_def Let_def
    by (auto split: if_splits sum.splits list.splits prod.splits)
  with Inl assms show ?thesis by (simp add: post_check_in_def)
next
  case (Inr x)
  obtain anti bm bs where x: "x = (anti, bm, bs)" by (cases x) auto
  have a: "approved_today CheckIn ex db (req_user_id req) = None"
    using check_in_match_Inr [of ex db req anti bm bs] Inr x by simp
  show ?thesis using assms Inr x a
    by (auto simp: post_check_in_def Let_def split: if_splits sum.splits option.splits prod.splits)
qed

lemma check_out_match_Inl:
  assumes "check_out_match ex db req = Inl r"
  shows "is_rejection r"
  using assms unfolding check_out_match_def
  by (auto split: if_splits sum.splits list.splits prod.splits)

lemma check_out_match_Inr:
  assumes "check_out_match ex db req = Inr (anti, bm, bs)"
  shows "well_formed req \<and> approved_today CheckIn ex db (req_user_id req) \<noteq> None
     \<and> approved_today CheckOut ex db (req_user_id req) = None
     \<and> performAntiSpoofingChecks (liveness_outcome ex) (texture_outcome ex) (depth_outcome ex) = Inr anti
     \<and> passed anti
     \<and> (\<exists>f. extracted_features ex = Inr f
           \<and> compare_templates (decryptFaceTemplate ex) f (user_templates db (req_user_id req))
                (None, Num 0) = Inr (bm, bs))"
  using assms unfolding check_out_match_def well_formed_def
  by (auto split: if_splits sum.splits list.splits prod.splits)

lemma post_check_out_cases:
  assumes "post_check_out ex db req = (resp, db')"
  shows "(db' = db \<and> is_rejection resp)
     \<or> (\<exists>r. resp = CheckOutRecorded r
           \<and> db' = db\<lparr>attendance_records := attendance_records db @ [r]\<rparr>
           \<and> ar_user_id r = req_user_id req \<and> ar_type r = CheckOut
           \<and> ar_timestamp r = clock_timestamp ex \<and> ar_status r = Approved
           \<and> ar_rejection_reason r = None \<and> \<not> ar_is_offline r
           \<and> approved_today CheckIn ex db (req_user_id req) \<noteq> None
           \<and> approved_today CheckOut ex db (req_user_id req) = None)"
proof (cases "check_out_match ex db req")
  case (Inl r)
  then have "is_rejection r" by (rule check_out_match_Inl)
  with Inl assms show ?thesis by (simp add: post_check_out_def)
next
  case (Inr x)
  obtain anti bm bs where x: "x = (anti, bm, bs)" by (cases x) auto
  have a: "approved_today CheckIn ex db (req_user_id req) \<noteq> None
     \<and> approved_today CheckOut ex db (req_user_id req) = None"
    using check_out_match_Inr [of ex db req anti bm bs] Inr x by simp
  show ?thesis using assms Inr x a
    by (auto simp: post_check_out_def Let_def split: if_splits sum.splits option.splits)
qed

lemma approved_keys_append:
  "approved_keys off (db\<lparr>attendance_records := attendance_records db @ [r]\<rparr>)
     = approved_keys off db
       @ (if ar_status r = Approved
          then [(ar_user_id r, ar_type r, day_of off (ar_timestamp r))] else [])"
  by (simp add: approved_keys_def)

lemma distinct_map_count:
  "distinct (map f xs) = (\<forall>k. length (filter (\<lambda>x. f x = k) xs) \<le> 1)"
proof (induction xs)
  case Nil
  then show ?case by simp
next
  case (Cons x xs)
  have m: "(f x \<in> f ` set xs) = (filter (\<lambda>y. f y = f x) xs \<noteq> [])"
    unfolding filter_empty_conv image_iff by (metis (full_types))
  show ?case
  proof
    assume d: "distinct (map f (x # xs))"
    then have nx: "filter (\<lambda>y. f y = f x) xs = []" using m by simp
    from d have "\<forall>k. length (filter (\<lambda>x. f x = k) xs) \<le> 1" using Cons.IH by simp
    then show "\<forall>k. length (filter (\<lambda>y. f y = k) (x # xs)) \<le> 1" using nx by auto
  next
    assume c: "\<forall>k. length (filter (\<lambda>y. f y = k) (x # xs)) \<le> 1"
    then have "length (filter (\<lambda>y. f y = f x) (x # xs)) \<le> 1" by blast
    then have nx: "filter (\<lambda>y. f y = f x) xs = []" by simp
    have "\<forall>k. length (filter (\<lambda>y. f y = k) xs) \<le> 1"
    proof
      fix k
      have "length (filter (\<lambda>y. f y = k) xs) \<le> length (filter (\<lambda>y. f y = k) (x # xs))" by simp
      also have "\<dots> \<le> 1" using c by blast
      finally show "length (filter (\<lambda>y. f y = k) xs) \<le> 1" .
    qed
    then have "distinct (map f xs)" using Cons.IH by simp
    then show "distinct (map f (x # xs))" using nx m by simp
  qed
qed

lemma one_per_day_count:
  "one_per_day off db =
     (\<forall>u ty d. length (filter (\<lambda>r. ar_status r = Approved \<and> ar_user_id r = u \<and> ar_type r = ty
                                 \<and> day_of off (ar_timestamp r) = d) (attendance_records db)) \<le> 1)"
proof -
  have "\<And>u ty d. filter (\<lambda>r. (ar_user_id r, ar_type r, day_of off (ar_timestamp r)) = (u, ty, d))
           (filter (\<lambda>r. ar_status r = Approved) (attendance_records db))
        = filter (\<lambda>r. ar_status r = Approved \<and> ar_user_id r = u \<and> ar_type r = ty
                                 \<and> day_of off (ar_timestamp r) = d) (attendance_records db)"
    by (simp add: conj_commute conj_left_commute cong: conj_cong)
  then show ?thesis
    unfolding one_per_day_def approved_keys_def distinct_map_count by (simp add: split_paired_all)
qed

lemma check_in_preserves:
  assumes inv: "one_per_day (utc_offset ex) db" and clk: "clock_same_day ex"
  shows "one_per_day (utc_offset ex) (snd (post_check_in ex db req))"
proof -
  obtain resp db' where p: "post_check_in ex db req = (resp, db')" by (cases "post_check_in ex db req")
  from clk have e: "day_of (utc_offset ex) (clock_todayEnd ex) = day_of (utc_offset ex) (clock_todayStart ex)"
    and s: "day_of (utc_offset ex) (clock_timestamp ex) = day_of (utc_offset ex) (clock_todayStart ex)"
    by (simp_all add: clock_same_day_def)
  from post_check_in_cases [OF p] show ?thesis
  proof
    assume "db' = db \<and> is_rejection resp"
    then show ?thesis using p inv by simp
  next
    assume "\<exists>r v m. resp = CheckInRecorded r v m
           \<and> db' = db\<lparr>attendance_records := attendance_records db @ [r]\<rparr>
           \<and> ar_user_id r = req_user_id req \<and> ar_type r = CheckIn
           \<and> ar_timestamp r = clock_timestamp ex \<and> \<not> ar_is_offline r
           \<and> approved_today CheckIn ex db (req_user_id req) = None"
    then obtain r where db': "db' = db\<lparr>attendance_records := attendance_records db @ [r]\<rparr>"
      and r: "ar_user_id r = req_user_id req" "ar_type r = CheckIn" "ar_timestamp r = clock_timestamp ex"
      and n: "approved_today CheckIn ex db (req_user_id req) = None" by blast
    have "\<not> has_approved CheckIn ex db req" using approved_today_iff [OF e, of CheckIn db req] n by simp
    then have "(ar_user_id r, ar_type r, day_of (utc_offset ex) (ar_timestamp r))
        \<notin> set (approved_keys (utc_offset ex) db)"
      using r s by (simp add: has_approved_def)
    then show ?thesis using p db' inv
      by (simp add: one_per_day_def approved_keys_append)
  qed
qed

lemma check_out_preserves:
  assumes inv: "one_per_day (utc_offset ex) db" and clk: "clock_same_day ex"
  shows "one_per_day (utc_offset ex) (snd (post_check_out ex db req))"
proof -
  obtain resp db' where p: "post_check_out ex db req = (resp, db')" by (cases "post_check_out ex db req")
  from clk have e: "day_of (utc_offset ex) (clock_todayEnd ex) = day_of (utc_offset ex) (clock_todayStart ex)"
    and s: "day_of (utc_offset ex) (clock_timestamp ex) = day_of (utc_offset ex) (clock_todayStart ex)"
    by (simp_all add: clock_same_day_def)
  from post_check_out_cases [OF p] show ?thesis
  proof
    assume "db' = db \<and> is_rejection resp"
    then show ?thesis using p inv by simp
  next
    assume "\<exists>r. resp = CheckOutRecorded r
           \<and> db' = db\<lparr>attendance_records := attendance_records db @ [r]\<rparr>
           \<and> ar_user_id r = req_user_id req \<and> ar_type r = CheckOut
           \<and> ar_timestamp r = clock_timestamp ex \<and> ar_status r = Approved
           \<and> ar_rejection_reason r = None \<and> \<not> ar_is_offline r
           \<and> approved_today CheckIn ex db (req_user_id req) \<noteq> None
           \<and> approved_today CheckOut ex db (req_user_id req) = None"
    then obtain r where db': "db' = db\<lparr>attendance_records := attendance_records db @ [r]\<rparr>"
      and r: "ar_user_id r = req_user_id req" "ar_type r = CheckOut" "ar_timestamp r = clock_timestamp ex"
      and n: "approved_today CheckOut ex db (req_user_id req) = None" by blast
    have "\<not> has_approved CheckOut ex db req" using approved_today_iff [OF e, of CheckOut db req] n by simp
    then have "(ar_user_id r, ar_type r, day_of (utc_offset ex) (ar_timestamp r))
        \<notin> set (approved_keys (utc_offset ex) db)"
      using r s by (simp add: has_approved_def)
    then show ?thesis using p db' inv
      by (simp add: one_per_day_def approved_keys_append)
  qed
qed

lemma check_in_duplicate:
  assumes e: "day_of (utc_offset ex) (clock_todayEnd ex) = day_of (utc_offset ex) (clock_todayStart ex)"
    and h: "has_approved CheckIn ex db req"
  shows "is_rejection (fst (post_check_in ex db req)) \<and> snd (post_check_in ex db req) = db
     \<and> (well_formed req \<longrightarrow> fst (post_check_in ex db req) = AlreadyCheckedIn)"
proof -
  have a: "approved_today CheckIn ex db (req_user_id req) \<noteq> None"
    using approved_today_iff [OF e, of CheckIn db req] h by simp
  obtain resp db' where p: "post_check_in ex db req = (resp, db')" by (cases "post_check_in ex db req")
  have 1: "is_rejection resp \<and> db' = db" using post_check_in_cases [OF p] a by auto
  have 2: "well_formed req \<longrightarrow> check_in_match ex db req = Inl AlreadyCheckedIn"
    using a by (simp add: check_in_match_def well_formed_def)
  show ?thesis using 1 2 p by (auto simp: post_check_in_def)
qed

lemma check_out_duplicate:
  assumes e: "day_of (utc_offset ex) (clock_todayEnd ex) = day_of (utc_offset ex) (clock_todayStart ex)"
  shows "(\<not> has_approved CheckIn ex db req \<or> has_approved CheckOut ex db req
            \<longrightarrow> is_rejection (fst (post_check_out ex db req)) \<and> snd (post_check_out ex db req) = db)
     \<and> (well_formed req \<and> \<not> has_approved CheckIn ex db req
            \<longrightarrow> fst (post_check_out ex db req) = NoCheckInYet)
     \<and> (well_formed req \<and> has_approved CheckIn ex db req \<and> has_approved CheckOut ex db req
            \<longrightarrow> fst (post_check_out ex db req) = AlreadyCheckedOut)"
proof -
  have i: "(approved_today CheckIn ex db (req_user_id req) \<noteq> None) = has_approved CheckIn ex db req"
    using e by (rule approved_today_iff)
  have out: "(approved_today CheckOut ex db (req_user_id req) \<noteq> None) = has_approved CheckOut ex db req"
    using e by (rule approved_today_iff)
  obtain resp db' where p: "post_check_out ex db req = (resp, db')" by (cases "post_check_out ex db req")
  have 1: "\<not> has_approved CheckIn ex db req \<or> has_approved CheckOut ex db req
      \<longrightarrow> is_rejection resp \<and> db' = db"
    using post_check_out_cases [OF p] i out by auto
  have 2: "well_formed req \<and> \<not> has_approved CheckIn ex db req
      \<longrightarrow> check_out_match ex db req = Inl NoCheckInYet"
    using i by (auto simp: check_out_match_def well_formed_def)
  have 3: "well_formed req \<and> has_approved CheckIn ex db req \<and> has_approved CheckOut ex db req
      \<longrightarrow> check_out_match ex db req = Inl AlreadyCheckedOut"
    using i out by (auto simp: check_out_match_def well_formed_def)
  show ?thesis using 1 2 3 p by (auto simp: post_check_out_def)
qed

section \<open>Evaluating the handlers on the sample data\<close>

lemma demo_compare_a:
  "compareFaces [1, 0] [1, 0] default_threshold
     = Inr \<lparr>isMatch = True, similarity = Num 1, threshold = 0.6\<rparr>"
  by (simp add: compareFaces_def tf_mul_def tf_norm_def tf_sum_def tf_square_def tf_div_def
      default_threshold_def)


lemma demo_compare_c:
  "compareFaces [1, 0] [3, 4] default_threshold
     = Inr \<lparr>isMatch = False, similarity = Num (3 / 5), threshold = 0.6\<rparr>"
  by (simp add: compareFaces_def tf_mul_def tf_norm_def tf_sum_def tf_square_def tf_div_def
      default_threshold_def)

lemma demo_anti:
  "performAntiSpoofingChecks (liveness_outcome (demo_externals t)) (texture_outcome (demo_externals t))
     (depth_outcome (demo_externals t)) = Inr demo_antiSpoofing"
  by (simp add: performAntiSpoofingChecks_def demo_externals_def demo_antiSpoofing_def Let_def)

lemma demo_faces:
  "detectFaces (detected_faces (demo_externals t))
     = Inr [\<lparr>box = (100, 100, 200, 200), face_confidence = 0.95\<rparr>]"
  by (simp add: detectFaces_def demo_externals_def)

lemma demo_passed: "passed demo_antiSpoofing"
  by (simp add: demo_antiSpoofing_def)

lemma demo_well_formed: "well_formed demo_request"
  by (simp add: well_formed_def demo_request_def)

lemma demo_templates:
  "user_templates (demo_db enc recs scheds) (req_user_id demo_request) = [demo_template ''t1'' enc True]"
  by (simp add: user_templates_def demo_db_def demo_template_def demo_request_def)

lemma demo_loop_a:
  "compare_templates demo_decrypt [1, 0] [demo_template ''t1'' ''enc-a'' True] (None, Num 0)
     = Inr (Some \<lparr>isMatch = True, similarity = Num 1, threshold = 0.6\<rparr>, Num 1)"
  by (simp add: demo_template_def demo_decrypt_def demo_compare_a)

lemma demo_loop_c:
  "compare_templates demo_decrypt [1, 0] [demo_template ''t1'' ''enc-c'' True] (None, Num 0)
     = Inr (Some \<lparr>isMatch = False, similarity = Num (3 / 5), threshold = 0.6\<rparr>, Num (3 / 5))"
  by (simp add: demo_template_def demo_decrypt_def demo_compare_c)


lemma check_in_match_reaches:
  assumes "well_formed req"
    and "approved_today CheckIn ex db (req_user_id req) = None"
    and "detectFaces (detected_faces ex) = Inr (fc # fcs)"
    and "performAntiSpoofingChecks (liveness_outcome ex) (texture_outcome ex) (depth_outcome ex) = Inr anti"
    and "passed anti"
    and "extracted_features ex = Inr feat"
    and "user_templates db (req_user_id req) = t # ts"
    and "compare_templates (decryptFaceTemplate ex) feat (t # ts) (None, Num 0) = Inr (bm, bs)"
  shows "check_in_match ex db req = Inr (anti, bm, bs)"
  using assms unfolding check_in_match_def well_formed_def Let_def by simp

lemma check_out_match_reaches:
  assumes "well_formed req"
    and "approved_today CheckIn ex db (req_user_id req) = Some r"
    and "approved_today CheckOut ex db (req_user_id req) = None"
    and "detectFaces (detected_faces ex) = Inr (fc # fcs)"
    and "performAntiSpoofingChecks (liveness_outcome ex) (texture_outcome ex) (depth_outcome ex) = Inr anti"
    and "passed anti"
    and "extracted_features ex = Inr feat"
    and "compare_templates (decryptFaceTemplate ex) feat (user_templates db (req_user_id req)) (None, Num 0) = Inr (bm, bs)"
  shows "check_out_match ex db req = Inr (anti, bm, bs)"
  using assms unfolding check_out_match_def well_formed_def Let_def by simp

lemma demo_match:
  assumes "approved_today CheckIn (demo_externals t) db (req_user_id demo_request) = None"
    and "user_templates db (req_user_id demo_request) = tp # tps"
    and "compare_templates demo_decrypt [1, 0] (tp # tps) (None, Num 0) = Inr (bm, bs)"
  shows "check_in_match (demo_externals t) db demo_request = Inr (demo_antiSpoofing, bm, bs)"
proof (rule check_in_match_reaches)
  show "well_formed demo_request" by (rule demo_well_formed)
  show "approved_today CheckIn (demo_externals t) db (req_user_id demo_request) = None"
    by (rule assms(1))
  show "detectFaces (detected_faces (demo_externals t)) = Inr [\<lparr>box = (100, 100, 200, 200), face_confidence = 0.95\<rparr>]"
    by (rule demo_faces)
  show "performAntiSpoofingChecks (liveness_outcome (demo_externals t)) (texture_outcome (demo_externals t))
     (depth_outcome (demo_externals t)) = Inr demo_antiSpoofing" by (rule demo_anti)
  show "passed demo_antiSpoofing" by (rule demo_passed)
  show "extracted_features (demo_externals t) = Inr [1, 0]" by (simp add: demo_externals_def)
  show "user_templates db (req_user_id demo_request) = tp # tps" by (rule assms(2))
  show "compare_templates (decryptFaceTemplate (demo_externals t)) [1, 0] (tp # tps) (None, Num 0) = Inr (bm, bs)"
    using assms(3) by (simp add: demo_externals_def)
qed

lemma demo_match_out:
  assumes "approved_today CheckIn (demo_externals t) db (req_user_id demo_request) = Some r"
    and "approved_today CheckOut (demo_externals t) db (req_user_id demo_request) = None"
    and "compare_templates demo_decrypt [1, 0] (user_templates db (req_user_id demo_request)) (None, Num 0) = Inr (bm, bs)"
  shows "check_out_match (demo_externals t) db demo_request = Inr (demo_antiSpoofing, bm, bs)"
proof (rule check_out_match_reaches)
  show "well_formed demo_request" by (rule demo_well_formed)
  show "approved_today CheckIn (demo_externals t) db (req_user_id demo_request) = Some r"
    by (rule assms(1))
  show "approved_today CheckOut (demo_externals t) db (req_user_id demo_request) = None"
    by (rule assms(2))
  show "detectFaces (detected_faces (demo_externals t)) = Inr [\<lparr>box = (100, 100, 200, 200), face_confidence = 0.95\<rparr>]"
    by (rule demo_faces)
  show "performAntiSpoofingChecks (liveness_outcome (demo_externals t)) (texture_outcome (demo_externals t))
     (depth_outcome (demo_externals t)) = Inr demo_antiSpoofing" by (rule demo_anti)
  show "passed demo_antiSpoofing" by (rule demo_passed)
  show "extracted_features (demo_externals t) = Inr [1, 0]" by (simp add: demo_externals_def)
  show "compare_templates (decryptFaceTemplate (demo_externals t)) [1, 0] (user_templates db (req_user_id demo_request)) (None, Num 0) = Inr (bm, bs)"
    using assms(3) by (simp add: demo_externals_def)
qed

lemma demo_today_none:
  "approved_today ty (demo_externals t) (demo_db enc [] scheds) uid = None"
  by (simp add: approved_today_def demo_db_def)

lemma demo_today_day0:
  "approved_today CheckIn (demo_externals 36000000) (demo_db enc [demo_check_in 1000] scheds) (req_user_id demo_request)
     = Some (demo_check_in 1000)"
  by (simp add: approved_today_def demo_db_def demo_externals_def demo_check_in_def demo_request_def
      setHours_start_def setHours_end_def)

lemma demo_today_out_day0:
  "approved_today CheckOut (demo_externals 36000000) (demo_db enc [demo_check_in 1000] scheds) (req_user_id demo_request)
     = None"
  by (simp add: approved_today_def demo_db_def demo_externals_def demo_check_in_def demo_request_def
      setHours_start_def setHours_end_def)


lemma post_check_in_recorded:
  assumes "check_in_match ex db req = Inr (anti, Some c, bs)"
    and "\<not> js_lt bs (Num confidenceThreshold)"
    and "deviceInfo_parses (deviceInfo req)"
    and "location_check (effective_schedule ex db (req_user_id req)) (latitude req) (longitude req) = (valid, msg)"
  shows "\<exists>r. post_check_in ex db req
            = (CheckInRecorded r valid msg, db\<lparr>attendance_records := attendance_records db @ [r]\<rparr>)
          \<and> ar_status r = (if valid then Approved else Flagged)
          \<and> ar_rejection_reason r = (if valid then None else Some msg)
          \<and> ar_timestamp r = clock_timestamp ex
          \<and> ar_confidence_score r = bs
          \<and> ar_user_id r = req_user_id req \<and> ar_type r = CheckIn \<and> \<not> ar_is_offline r"
proof (cases "deviceInfo req")
  case None
  then show ?thesis using assms by (simp add: post_check_in_def Let_def)
next
  case (Some a)
  then obtain v where "a = Inr v" using assms(3) by (cases a) simp_all
  with Some show ?thesis using assms by (simp add: post_check_in_def Let_def)
qed

lemma post_check_out_recorded:
  assumes "check_out_match ex db req = Inr (anti, Some c, bs)"
    and "\<not> js_lt bs (Num confidenceThreshold)"
    and "deviceInfo_parses (deviceInfo req)"
  shows "\<exists>r. post_check_out ex db req
            = (CheckOutRecorded r, db\<lparr>attendance_records := attendance_records db @ [r]\<rparr>)
          \<and> ar_status r = Approved
          \<and> ar_rejection_reason r = None
          \<and> ar_timestamp r = clock_timestamp ex
          \<and> ar_confidence_score r = bs
          \<and> ar_user_id r = req_user_id req \<and> ar_type r = CheckOut \<and> \<not> ar_is_offline r"
proof (cases "deviceInfo req")
  case None
  then show ?thesis using assms by (simp add: post_check_out_def Let_def)
next
  case (Some a)
  then obtain v where "a = Inr v" using assms(3) by (cases a) simp_all
  with Some show ?thesis using assms by (simp add: post_check_out_def Let_def)
qed

section \<open>The attendance pipeline\<close>




lemma js_not_gt_trans:
  "\<not> js_gt s b \<Longrightarrow> js_gt b' b \<Longrightarrow> b \<noteq> NaN \<Longrightarrow> \<not> js_gt s b'"
  by (cases s; cases b; cases b') simp_all



text \<open>
  What both routes do keep. While the clock readings that a handler takes for the
  record and for the day window fall on the same day, no two approved records come to
  share user, type and calendar day (by \<open>one_per_day_count\<close>: for every user and day
  there is at most one approved check-in and at most one approved check-out). A
  check-in is rejected when the user has an approved check-in that day; a check-out is
  rejected when the user has no approved check-in that day, or has an approved
  check-out already. A rejection leaves the table as it was.
\<close>

lemma attendance_one_per_day:
  assumes "one_per_day (utc_offset ex) db" and "clock_same_day ex"
  shows "one_per_day (utc_offset ex) (snd (post_check_in ex db req))
     \<and> one_per_day (utc_offset ex) (snd (post_check_out ex db req))
     \<and> (has_approved CheckIn ex db req
          \<longrightarrow> is_rejection (fst (post_check_in ex db req)) \<and> snd (post_check_in ex db req) = db
              \<and> (well_formed req \<longrightarrow> fst (post_check_in ex db req) = AlreadyCheckedIn))
     \<and> (\<not> has_approved CheckIn ex db req \<or> has_approved CheckOut ex db req
          \<longrightarrow> is_rejection (fst (post_check_out ex db req)) \<and> snd (post_check_out ex db req) = db)
     \<and> (well_formed req \<and> \<not> has_approved CheckIn ex db req
          \<longrightarrow> fst (post_check_out ex db req) = NoCheckInYet)
     \<and> (well_formed req \<and> has_approved CheckIn ex db req \<and> has_approved CheckOut ex db req
          \<longrightarrow> fst (post_check_out ex db req) = AlreadyCheckedOut)"
proof -
  from assms(2) have e: "day_of (utc_offset ex) (clock_todayEnd ex) = day_of (utc_offset ex) (clock_todayStart ex)"
    by (simp add: clock_same_day_def)
  have 1: "one_per_day (utc_offset ex) (snd (post_check_in ex db req))"
    using assms by (rule check_in_preserves)
  have 2: "one_per_day (utc_offset ex) (snd (post_check_out ex db req))"
    using assms by (rule check_out_preserves)
  have 3: "has_approved CheckIn ex db req
          \<longrightarrow> is_rejection (fst (post_check_in ex db req)) \<and> snd (post_check_in ex db req) = db
              \<and> (well_formed req \<longrightarrow> fst (post_check_in ex db req) = AlreadyCheckedIn)"
    using check_in_duplicate [OF e] by blast
  note 4 = check_out_duplicate [OF e, of db req]
  show ?thesis using 1 2 3 4 by blast
qed

lemma demo_one_per_day: "one_per_day 0 (demo_db enc [demo_check_in 1000] scheds)"
  by (simp add: one_per_day_def approved_keys_def demo_db_def demo_check_in_def)

lemma demo_same_day: "clock_same_day (demo_externals 36000000)"
  by (simp add: clock_same_day_def demo_externals_def day_of_def)

lemma demo_has_approved:
  "has_approved CheckIn (demo_externals 36000000) (demo_db enc [demo_check_in 1000] scheds) demo_request"
  by (simp add: has_approved_def approved_keys_def demo_db_def demo_check_in_def demo_externals_def
      demo_request_def day_of_def)

lemma attendance_one_per_day_sample:
  "one_per_day 0 (demo_db ''enc-a'' [demo_check_in 1000] [])
   \<and> clock_same_day (demo_externals 36000000)
   \<and> has_approved CheckIn (demo_externals 36000000) (demo_db ''enc-a'' [demo_check_in 1000] []) demo_request
   \<and> fst (post_check_in (demo_externals 36000000) (demo_db ''enc-a'' [demo_check_in 1000] []) demo_request)
       = AlreadyCheckedIn
   \<and> snd (post_check_in (demo_externals 36000000) (demo_db ''enc-a'' [demo_check_in 1000] []) demo_request)
       = demo_db ''enc-a'' [demo_check_in 1000] []
   \<and> one_per_day 0
       (snd (post_check_out (demo_externals 36000000) (demo_db ''enc-a'' [demo_check_in 1000] []) demo_request))"
proof -
  have u: "utc_offset (demo_externals 36000000) = 0" by (simp add: demo_externals_def)
  have i: "one_per_day (utc_offset (demo_externals 36000000)) (demo_db ''enc-a'' [demo_check_in 1000] [])"
    using demo_one_per_day u by simp
  show ?thesis
    using attendance_one_per_day [OF i demo_same_day, of demo_request]
      demo_has_approved [of "''enc-a''" "[]"] demo_well_formed demo_one_per_day [of "''enc-a''" "[]"]
      demo_same_day u
    by simp
qed

lemma check_out_match_ignores_location:
  "check_out_match ex (db\<lparr>work_schedules := scheds\<rparr>) (req\<lparr>latitude := lat, longitude := lon\<rparr>)
     = check_out_match ex db req"
proof -
  have t: "user_templates (db\<lparr>work_schedules := scheds\<rparr>) (req_user_id req) = user_templates db (req_user_id req)"
    by (simp add: user_templates_def)
  have a: "\<And>ty. approved_today ty ex (db\<lparr>work_schedules := scheds\<rparr>) (req_user_id req)
      = approved_today ty ex db (req_user_id req)"
    by (simp add: approved_today_def)
  show ?thesis
    by (simp add: check_out_match_def t a cong: sum.case_cong list.case_cong if_cong)
qed

text \<open>
  C9. Check-out either leaves the table unchanged or appends one record, and that
  record is approved, with no rejection reason. Work schedules and the submitted
  coordinates have no influence on whether a record results or on its status.
\<close>

theorem check_out_always_approved:
  "(snd (post_check_out ex db req) = db \<and> recorded_status (fst (post_check_out ex db req)) = None
      \<or> (\<exists>r. post_check_out ex db req
                = (CheckOutRecorded r, db\<lparr>attendance_records := attendance_records db @ [r]\<rparr>)
              \<and> ar_status r = Approved \<and> ar_rejection_reason r = None))
   \<and> recorded_status
         (fst (post_check_out ex (db\<lparr>work_schedules := scheds\<rparr>) (req\<lparr>latitude := lat, longitude := lon\<rparr>)))
       = recorded_status (fst (post_check_out ex db req))"
proof -
  obtain resp db' where p: "post_check_out ex db req = (resp, db')" by (cases "post_check_out ex db req")
  have r: "is_rejection resp \<Longrightarrow> recorded_status resp = None" by (cases resp) simp_all
  have 1: "snd (post_check_out ex db req) = db \<and> recorded_status (fst (post_check_out ex db req)) = None
      \<or> (\<exists>r. post_check_out ex db req
                = (CheckOutRecorded r, db\<lparr>attendance_records := attendance_records db @ [r]\<rparr>)
              \<and> ar_status r = Approved \<and> ar_rejection_reason r = None)"
    using post_check_out_cases [OF p] p r by auto
  have 2: "recorded_status
         (fst (post_check_out ex (db\<lparr>work_schedules := scheds\<rparr>) (req\<lparr>latitude := lat, longitude := lon\<rparr>)))
       = recorded_status (fst (post_check_out ex db req))"
    unfolding post_check_out_def check_out_match_ignores_location
    by (auto simp: Let_def split: sum.splits option.splits)
  show ?thesis using 1 2 by blast
qed

lemma demo_parses: "deviceInfo_parses (deviceInfo demo_request)"
  by (simp add: demo_request_def)

lemma demo_not_below_a: "\<not> js_lt (Num 1) (Num confidenceThreshold)"
  by (simp add: js_lt_def confidenceThreshold_def)

lemma demo_out_day0:
  "check_out_match (demo_externals 36000000) (demo_db ''enc-a'' [demo_check_in 1000] scheds) demo_request
     = Inr (demo_antiSpoofing, Some \<lparr>isMatch = True, similarity = Num 1, threshold = 0.6\<rparr>, Num 1)"
  using demo_today_day0 demo_today_out_day0
proof (rule demo_match_out)
  show "compare_templates demo_decrypt [1, 0]
     (user_templates (demo_db ''enc-a'' [demo_check_in 1000] scheds) (req_user_id demo_request))
     (None, Num 0)
    = Inr (Some \<lparr>isMatch = True, similarity = Num 1, threshold = 0.6\<rparr>, Num 1)"
    unfolding demo_templates by (rule demo_loop_a)
qed

theorem check_out_always_approved_witness:
  "recorded_status
     (fst (post_check_out (demo_externals 36000000)
             (demo_db ''enc-a'' [demo_check_in 1000] [demo_schedule (- 90) 45 100]) demo_request))
     = Some Approved
   \<and> recorded_status
     (fst (post_check_out (demo_externals 36000000)
             (demo_db ''enc-a'' [demo_check_in 1000] []) demo_request))
     = Some Approved"
proof -
  have s: "(demo_db ''enc-a'' [demo_check_in 1000] [])\<lparr>work_schedules := [demo_schedule (- 90) 45 100]\<rparr>
      = demo_db ''enc-a'' [demo_check_in 1000] [demo_schedule (- 90) 45 100]"
    by (simp add: demo_db_def)
  have q: "demo_request\<lparr>latitude := 90, longitude := 45\<rparr> = demo_request"
    by (simp add: demo_request_def)
  obtain r where "post_check_out (demo_externals 36000000) (demo_db ''enc-a'' [demo_check_in 1000] []) demo_request
       = (CheckOutRecorded r, (demo_db ''enc-a'' [demo_check_in 1000] [])
             \<lparr>attendance_records := attendance_records (demo_db ''enc-a'' [demo_check_in 1000] []) @ [r]\<rparr>)"
    and "ar_status r = Approved"
    using post_check_out_recorded [OF demo_out_day0 demo_not_below_a demo_parses] by blast
  then show ?thesis
    using check_out_always_approved [where ex = "demo_externals 36000000"
        and db = "demo_db ''enc-a'' [demo_check_in 1000] []" and req = demo_request
        and scheds = "[demo_schedule (- 90) 45 100]" and lat = 90 and lon = 45] s q
    by simp
qed





lemma demo_no_schedule:
  "location_check (effective_schedule ex (demo_db enc recs []) uid) lat lon = (True, [])"
  by (simp add: effective_schedule_def demo_db_def location_check_def)





text \<open>
  C5. When check-in reaches the end of the template loop with a best similarity below
  0.8, the response is the face-recognition failure carrying that similarity and the
  threshold 0.8, and the table is unchanged. The threshold 0.8 is above the default
  comparison threshold 0.6.
\<close>

theorem check_in_below_threshold_rejected:
  assumes "check_in_match ex db req = Inr (anti, bm, bs)" and "js_lt bs (Num 0.8)"
  shows "post_check_in ex db req = (FaceNotRecognized (Some (bs, 0.8)), db)
     \<and> confidenceThreshold = 0.8 \<and> default_threshold = 0.6
     \<and> default_threshold < confidenceThreshold"
  using assms by (simp add: post_check_in_def confidenceThreshold_def default_threshold_def)

lemma demo_in_c:
  "check_in_match (demo_externals 36000000) (demo_db ''enc-c'' [] scheds) demo_request
     = Inr (demo_antiSpoofing, Some \<lparr>isMatch = False, similarity = Num (3 / 5), threshold = 0.6\<rparr>, Num (3 / 5))"
  using demo_today_none demo_templates demo_loop_c by (rule demo_match)

theorem check_in_below_threshold_rejected_witness:
  "check_in_match (demo_externals 36000000) (demo_db ''enc-c'' [] []) demo_request
     = Inr (demo_antiSpoofing, Some \<lparr>isMatch = False, similarity = Num (3 / 5), threshold = 0.6\<rparr>, Num (3 / 5))
   \<and> js_lt (Num (3 / 5)) (Num 0.8)
   \<and> post_check_in (demo_externals 36000000) (demo_db ''enc-c'' [] []) demo_request
       = (FaceNotRecognized (Some (Num (3 / 5), 0.8)), demo_db ''enc-c'' [] [])"
proof -
  have l: "js_lt (Num (3 / 5)) (Num 0.8)" by (simp add: js_lt_def)
  show ?thesis using check_in_below_threshold_rejected [OF demo_in_c l] demo_in_c l by simp
qed














section \<open>The geofence\<close>











lemma show_nat_digit: "n < 10 \<Longrightarrow> show_nat n = [char_of (48 + n)]"
  by (simp add: show_nat.simps)

lemma show_nat_step: "10 \<le> n \<Longrightarrow> show_nat n = show_nat (n div 10) @ [char_of (48 + n mod 10)]"
  by (subst show_nat.simps) simp

lemma digit_chars:
  "char_of (48 :: nat) = CHR ''0''" "char_of (49 :: nat) = CHR ''1''"
  "char_of (50 :: nat) = CHR ''2''" "char_of (53 :: nat) = CHR ''5''"
  by code_simp+

lemma locationMessage_text_example:
  "locationMessage_text 250 (Some 100)
     = ''You are 250m away from your work location. Allowed radius: 100m''"
  by (simp add: locationMessage_text_def Math_round_def radius_text_def show_int_def
      show_nat_step show_nat_digit digit_chars)








section \<open>Check-in across midnight\<close>

lemma demo_today_midnight:
  "approved_today CheckIn (demo_externals 86399999) (demo_db enc [demo_check_in 1000] scheds)
     (req_user_id demo_request) = None"
  by (simp add: approved_today_def demo_db_def demo_externals_def demo_check_in_def demo_request_def
      setHours_start_def setHours_end_def)

lemma demo_in_midnight:
  "check_in_match (demo_externals 86399999) (demo_db ''enc-a'' [demo_check_in 1000] scheds) demo_request
     = Inr (demo_antiSpoofing, Some \<lparr>isMatch = True, similarity = Num 1, threshold = 0.6\<rparr>, Num 1)"
  using demo_today_midnight demo_templates demo_loop_a by (rule demo_match)

text \<open>
  C2. The invariant is not kept for every day. Check-in reads the clock for the
  record's timestamp first and for the day window afterwards. Here user u1 has an
  approved check-in on day 0; the handler stamps the new record at 23:59:59.999 of day
  0 and computes the window a millisecond later, on day 1. The duplicate check finds
  nothing, the submission is not rejected, and the table ends with two approved
  check-ins of u1 on day 0.
\<close>

theorem check_in_across_midnight_second_approved:
  "one_per_day 0 (demo_db ''enc-a'' [demo_check_in 1000] [])
   \<and> approved_keys 0 (demo_db ''enc-a'' [demo_check_in 1000] []) = [(''u1'', CheckIn, 0)]
   \<and> clock_timestamp (demo_externals 86399999) = 86399999
   \<and> clock_todayStart (demo_externals 86399999) = 86400000
   \<and> clock_todayEnd (demo_externals 86399999) = 86400001
   \<and> recorded_status
        (fst (post_check_in (demo_externals 86399999) (demo_db ''enc-a'' [demo_check_in 1000] [])
                demo_request))
       = Some Approved
   \<and> approved_keys 0
        (snd (post_check_in (demo_externals 86399999) (demo_db ''enc-a'' [demo_check_in 1000] [])
                demo_request))
       = [(''u1'', CheckIn, 0), (''u1'', CheckIn, 0)]
   \<and> \<not> one_per_day 0
        (snd (post_check_in (demo_externals 86399999) (demo_db ''enc-a'' [demo_check_in 1000] [])
                demo_request))"
proof -
  let ?db = "demo_db ''enc-a'' [demo_check_in 1000] []"
  have k: "approved_keys 0 ?db = [(''u1'', CheckIn, 0)]"
    by (simp add: approved_keys_def demo_db_def demo_check_in_def day_of_def)
  have c: "clock_timestamp (demo_externals 86399999) = 86399999"
    "clock_todayStart (demo_externals 86399999) = 86400000"
    "clock_todayEnd (demo_externals 86399999) = 86400001"
    by (simp_all add: demo_externals_def)
  obtain r where p: "post_check_in (demo_externals 86399999) ?db demo_request
       = (CheckInRecorded r True [], ?db\<lparr>attendance_records := attendance_records ?db @ [r]\<rparr>)"
    and st: "ar_status r = (if True then Approved else Flagged)"
    and ts: "ar_timestamp r = clock_timestamp (demo_externals 86399999)"
    and us: "ar_user_id r = req_user_id demo_request" and ty: "ar_type r = CheckIn"
    using post_check_in_recorded [OF demo_in_midnight demo_not_below_a demo_parses demo_no_schedule]
    by blast
  have u: "ar_user_id r = ''u1''" using us by (simp add: demo_request_def)
  have d: "day_of 0 (ar_timestamp r) = 0" using ts c by (simp add: day_of_def)
  have 1: "recorded_status (fst (post_check_in (demo_externals 86399999) ?db demo_request))
       = Some Approved" using p st by simp
  have 2: "approved_keys 0 (snd (post_check_in (demo_externals 86399999) ?db demo_request))
       = [(''u1'', CheckIn, 0), (''u1'', CheckIn, 0)]"
    using p st u ty d k by (simp add: approved_keys_append)
  have 3: "\<not> one_per_day 0 (snd (post_check_in (demo_externals 86399999) ?db demo_request))"
    unfolding one_per_day_def 2 by simp
  show ?thesis using demo_one_per_day [of "''enc-a''" "[]"] k c 1 2 3 by blast
qed

section \<open>Encrypting and decrypting a template\<close>

lemma parse_stringify_plain: "JSON_parse (JSON_stringify (plain_vector xs)) = plain_vector xs"
  by (simp add: plain_vector_def comp_def)

lemma map_prod_zip: "map (map_prod id g) (zip ks ys) = zip ks (map g ys)"
  by (induction ks ys rule: list_induct2') simp_all

lemma parse_stringify_typed:
  "JSON_parse (JSON_stringify (typed_vector xs))
     = JSObject (zip (map show_nat [0..<length xs]) (map (\<lambda>x. JSNumber (Num x)) xs))"
  by (simp add: typed_vector_def map_prod_zip comp_def)

lemma encrypt_then_decrypt_inverting:
  assumes "\<And>text. decipher key (cipher key text) = Inr text"
  shows "encrypt_then_decrypt cipher decipher (Some key) template
     = Inr (JSON_parse (JSON_stringify template))"
  using assms by (simp add: encrypt_then_decrypt_def encryptFaceTemplate_def decryptFaceTemplate_service_def)

text \<open>
  C8. Encrypting and then decrypting is not the identity on the feature vectors that
  the enrolment route encrypts. With a key and a cipher whose decipher inverts it, a
  plain array of numbers comes back as it was, but a typed array comes back as an
  object keyed by the indices, which is neither the typed array nor the plain array
  of its numbers. Without a key, encryption throws.
\<close>

theorem encrypt_then_decrypt_typed_vector:
  assumes "\<And>text. decipher key (cipher key text) = Inr text"
  shows "encrypt_then_decrypt cipher decipher (Some key) (plain_vector xs) = Inr (plain_vector xs)
     \<and> encrypt_then_decrypt cipher decipher (Some key) (typed_vector xs)
         = Inr (JSObject (zip (map show_nat [0..<length xs]) (map (\<lambda>x. JSNumber (Num x)) xs)))
     \<and> encrypt_then_decrypt cipher decipher (Some key) (typed_vector xs) \<noteq> Inr (typed_vector xs)
     \<and> encrypt_then_decrypt cipher decipher (Some key) (typed_vector xs) \<noteq> Inr (plain_vector xs)
     \<and> encrypt_then_decrypt cipher decipher None template = Inl MissingKeyError"
proof -
  note e = encrypt_then_decrypt_inverting [of decipher key cipher, OF assms]
  have 1: "encrypt_then_decrypt cipher decipher (Some key) (plain_vector xs) = Inr (plain_vector xs)"
    unfolding e parse_stringify_plain by (rule refl)
  have 2: "encrypt_then_decrypt cipher decipher (Some key) (typed_vector xs)
         = Inr (JSObject (zip (map show_nat [0..<length xs]) (map (\<lambda>x. JSNumber (Num x)) xs)))"
    unfolding e parse_stringify_typed by (rule refl)
  have 3: "encrypt_then_decrypt cipher decipher (Some key) (typed_vector xs) \<noteq> Inr (typed_vector xs)"
    unfolding 2 by (simp add: typed_vector_def)
  have 4: "encrypt_then_decrypt cipher decipher (Some key) (typed_vector xs) \<noteq> Inr (plain_vector xs)"
    unfolding 2 by (simp add: plain_vector_def)
  have 5: "encrypt_then_decrypt cipher decipher None template = Inl MissingKeyError"
    by (simp add: encrypt_then_decrypt_def encryptFaceTemplate_def)
  show ?thesis using 1 2 3 4 5 by blast
qed

lemma demo_cipher_inverts: "demo_decipher key (demo_cipher key text) = Inr text"
  by (simp add: demo_cipher_def demo_decipher_def)

lemma index_keys_two: "show_nat 0 = ''0''" "show_nat (Suc 0) = ''1''"
proof -
  have c: "char_of (48 :: nat) = CHR ''0''" "char_of (49 :: nat) = CHR ''1''" by code_simp+
  show "show_nat 0 = ''0''" using c by (simp add: show_nat_digit)
  have "show_nat 1 = ''1''" using c by (simp add: show_nat_digit)
  then show "show_nat (Suc 0) = ''1''" by simp
qed

theorem encrypt_then_decrypt_typed_vector_witness:
  "encrypt_then_decrypt demo_cipher demo_decipher (Some ''secret'') (typed_vector [1, 0])
     = Inr (JSObject [(''0'', JSNumber (Num 1)), (''1'', JSNumber (Num 0))])
   \<and> typed_vector [1, 0] = JSFloat32Array [Num 1, Num 0]
   \<and> encrypt_then_decrypt demo_cipher demo_decipher (Some ''secret'') (plain_vector [1, 0])
       = Inr (JSArray [JSNumber (Num 1), JSNumber (Num 0)])"
proof -
  have i: "\<And>text. demo_decipher ''secret'' (demo_cipher ''secret'' text) = Inr text"
    by (rule demo_cipher_inverts)
  show ?thesis
    using encrypt_then_decrypt_typed_vector [of demo_decipher "''secret''" demo_cipher "[1, 0]", OF i]
      index_keys_two
    by (simp add: typed_vector_def plain_vector_def)
qed

end
